theory Spec2Isabelle
  imports Main "HOL-Library.Sublist"
begin


section \<open>Python strings\<close>

text \<open>
  A Python \<open>str\<close> is modelled as a \<open>string\<close>, each character read as one code point in
  the range U+0000..U+00FF. On that range the functions below are the builtins they are
  named after.
\<close>

definition py_isspace :: "char \<Rightarrow> bool" where
  \<comment> \<open>\<open>str.isspace\<close> on one character: TAB..CR, FS..US, space, NEL, NBSP.\<close>
  "py_isspace c =
     (let n = (of_char c :: nat)
      in (9 \<le> n \<and> n \<le> 13) \<or> (28 \<le> n \<and> n \<le> 32) \<or> n = 133 \<or> n = 160)"

definition py_strip :: "string \<Rightarrow> string" where
  \<comment> \<open>\<open>s.strip()\<close>\<close>
  "py_strip s = rev (dropWhile py_isspace (rev (dropWhile py_isspace s)))"


fun py_join :: "string \<Rightarrow> string list \<Rightarrow> string" where
  \<comment> \<open>\<open>sep.join(xs)\<close>\<close>
  "py_join sep [] = []"
| "py_join sep [x] = x"
| "py_join sep (x # y # ys) = x @ sep @ py_join sep (y # ys)"





section \<open>The allow-list (\<open>bot.py\<close>, \<open>bot_oss.py\<close>)\<close>







section \<open>Python values\<close>

text \<open>
  The values that cross the boundary with the tool service: JSON-shaped data, and objects
  with attributes (the SDK's result and descriptor classes). An object has a class name,
  its attributes, and the value its \<open>model_dump()\<close> returns when it has that method.
  Values are finite trees; an object has no mapping interface (no \<open>get\<close>), and a mapping
  has none of the attributes the source reads. Floats are left out.
\<close>

datatype pyval =
    PNone
  | PBool bool
  | PInt int
  | PStr string
  | PList "pyval list"
  | PDict "(string \<times> pyval) list"
  | PObj (cls: string) (attrs: "(string \<times> pyval) list") (dump: "pyval option")

text \<open>An exception (a subclass of \<open>Exception\<close>): its class name and its \<open>repr\<close>.\<close>

datatype pyexn = PyExn (exn_type: string) (exn_repr: string)

fun truthy :: "pyval \<Rightarrow> bool" where
  "truthy PNone = False"
| "truthy (PBool b) = b"
| "truthy (PInt i) = (i \<noteq> 0)"
| "truthy (PStr s) = (s \<noteq> [])"
| "truthy (PList xs) = (xs \<noteq> [])"
| "truthy (PDict kvs) = (kvs \<noteq> [])"
| "truthy (PObj c as d) = True"

definition py_or :: "pyval \<Rightarrow> pyval \<Rightarrow> pyval" where
  \<comment> \<open>\<open>a or b\<close>\<close>
  "py_or a b = (if truthy a then a else b)"

fun py_getattr :: "pyval \<Rightarrow> string \<Rightarrow> pyval \<Rightarrow> pyval" where
  \<comment> \<open>\<open>getattr(v, name, default)\<close>, for the attribute names the source reads\<close>
  "py_getattr (PObj c as d) nm dflt = (case map_of as nm of Some v \<Rightarrow> v | None \<Rightarrow> dflt)"
| "py_getattr v nm dflt = dflt"

fun type_name :: "pyval \<Rightarrow> string" where
  "type_name PNone = ''NoneType''"
| "type_name (PBool b) = ''bool''"
| "type_name (PInt i) = ''int''"
| "type_name (PStr s) = ''str''"
| "type_name (PList xs) = ''list''"
| "type_name (PDict kvs) = ''dict''"
| "type_name (PObj c as d) = c"

definition attribute_error :: "pyval \<Rightarrow> string \<Rightarrow> pyexn" where
  "attribute_error v nm =
     PyExn ''AttributeError''
       (''AttributeError('' @ [CHR 0x22, CHR 0x27] @ type_name v @ [CHR 0x27]
        @ '' object has no attribute '' @ [CHR 0x27] @ nm @ [CHR 0x27, CHR 0x22] @ '')'')"

fun py_get :: "pyval \<Rightarrow> string \<Rightarrow> pyval \<Rightarrow> pyexn + pyval" where
  \<comment> \<open>\<open>v.get(key, default)\<close>: a method of mappings only\<close>
  "py_get (PDict kvs) key dflt = Inr (case map_of kvs key of Some v \<Rightarrow> v | None \<Rightarrow> dflt)"
| "py_get v key dflt = Inl (attribute_error v ''get'')"

definition or_else :: "pyval \<Rightarrow> pyexn + pyval \<Rightarrow> pyexn + pyval" where
  \<comment> \<open>\<open>a or b\<close> where evaluating \<open>b\<close> may raise: \<open>b\<close> is evaluated only when \<open>a\<close> is falsy\<close>
  "or_else a b = (if truthy a then Inr a else b)"

subsection \<open>\<open>json.dumps(v, ensure_ascii=False)\<close>\<close>

definition digit_char :: "nat \<Rightarrow> char" where
  "digit_char d = ''0123456789'' ! d"

function show_nat :: "nat \<Rightarrow> string" where
  "show_nat n = (if n < 10 then [digit_char n] else show_nat (n div 10) @ [digit_char (n mod 10)])"
  by pat_completeness auto
termination
  by (relation "measure id") auto

declare show_nat.simps [simp del]

definition show_int :: "int \<Rightarrow> string" where
  "show_int i = (if i < 0 then CHR ''-'' # show_nat (nat (- i)) else show_nat (nat i))"

definition hex_digit :: "nat \<Rightarrow> char" where
  "hex_digit d = ''0123456789abcdef'' ! d"

definition json_escape :: "char \<Rightarrow> string" where
  \<comment> \<open>the encoder's escape table: quote, backslash and the control characters\<close>
  "json_escape c =
     (let n = (of_char c :: nat)
      in if n = 34 then [CHR 0x5C, CHR 0x22]
         else if n = 92 then [CHR 0x5C, CHR 0x5C]
         else if n = 10 then [CHR 0x5C, CHR ''n'']
         else if n = 13 then [CHR 0x5C, CHR ''r'']
         else if n = 9 then [CHR 0x5C, CHR ''t'']
         else if n = 8 then [CHR 0x5C, CHR ''b'']
         else if n = 12 then [CHR 0x5C, CHR ''f'']
         else if n < 32 then
           [CHR 0x5C, CHR ''u'', CHR ''0'', CHR ''0'', hex_digit (n div 16), hex_digit (n mod 16)]
         else [c])"

definition json_quote :: "string \<Rightarrow> string" where
  "json_quote s = CHR 0x22 # concat (map json_escape s) @ [CHR 0x22]"

definition not_serializable :: "string \<Rightarrow> pyexn" where
  "not_serializable c =
     PyExn ''TypeError''
       (''TypeError('' @ [CHR 0x27] @ ''Object of type '' @ c @ '' is not JSON serializable''
        @ [CHR 0x27] @ '')'')"

fun json_dumps :: "pyval \<Rightarrow> pyexn + string"
  and json_items :: "pyval list \<Rightarrow> pyexn + string list"
  and json_members :: "(string \<times> pyval) list \<Rightarrow> pyexn + string list"
where
  "json_dumps PNone = Inr ''null''"
| "json_dumps (PBool b) = Inr (if b then ''true'' else ''false'')"
| "json_dumps (PInt i) = Inr (show_int i)"
| "json_dumps (PStr s) = Inr (json_quote s)"
| "json_dumps (PList xs) =
     (case json_items xs of
        Inl e \<Rightarrow> Inl e
      | Inr ss \<Rightarrow> Inr (''['' @ py_join '', '' ss @ '']''))"
| "json_dumps (PDict kvs) =
     (case json_members kvs of
        Inl e \<Rightarrow> Inl e
      | Inr ss \<Rightarrow> Inr (''{'' @ py_join '', '' ss @ ''}''))"
| "json_dumps (PObj c as d) = Inl (not_serializable c)"
| "json_items [] = Inr []"
| "json_items (x # xs) =
     (case json_dumps x of
        Inl e \<Rightarrow> Inl e
      | Inr s \<Rightarrow> (case json_items xs of Inl e \<Rightarrow> Inl e | Inr ss \<Rightarrow> Inr (s # ss)))"
| "json_members [] = Inr []"
| "json_members (kv # kvs) =
     (case json_dumps (snd kv) of
        Inl e \<Rightarrow> Inl e
      | Inr s \<Rightarrow>
          (case json_members kvs of
             Inl e \<Rightarrow> Inl e
           | Inr ss \<Rightarrow> Inr ((json_quote (fst kv) @ '': '' @ s) # ss)))"

section \<open>Normalising a tool result (\<open>ask_claude_with_mcp\<close>, the body of the \<open>try\<close>)\<close>

text \<open>
  \<open>repr\<close> is a parameter \<open>rp\<close> of the model: any total function from values to strings.
  \<open>str(v)\<close> is \<open>v\<close> itself on a \<open>str\<close> and \<open>repr(v)\<close> on every other value.
\<close>

definition py_str :: "(pyval \<Rightarrow> string) \<Rightarrow> pyval \<Rightarrow> string" where
  "py_str rp v = (case v of PStr s \<Rightarrow> s | _ \<Rightarrow> rp v)"

definition text_segment :: "string \<Rightarrow> pyval" where
  \<comment> \<open>\<open>{"type": "text", "text": s}\<close>\<close>
  "text_segment s = PDict [(''type'', PStr ''text''), (''text'', PStr s)]"

definition dumps_or :: "pyval \<Rightarrow> string \<Rightarrow> pyexn + string" where
  \<comment> \<open>\<open>try: json.dumps(v, ensure_ascii=False)  except TypeError: alt\<close>\<close>
  "dumps_or v alt =
     (case json_dumps v of
        Inr s \<Rightarrow> Inr s
      | Inl e \<Rightarrow> if exn_type e = ''TypeError'' then Inr alt else Inl e)"

definition to_text_segment :: "(pyval \<Rightarrow> string) \<Rightarrow> pyval \<Rightarrow> pyexn + pyval" where
  "to_text_segment rp segment0 =
     (let segment = (case segment0 of PObj c as (Some d) \<Rightarrow> d | _ \<Rightarrow> segment0)
      in case segment of
           PDict kvs \<Rightarrow>
             if map_of kvs ''type'' = Some (PStr ''text'') \<and> map_of kvs ''text'' \<noteq> None
             then Inr (text_segment
                        (py_str rp (case map_of kvs ''text'' of Some v \<Rightarrow> v | None \<Rightarrow> PStr [])))
             else map_sum id text_segment (dumps_or segment (py_str rp segment))
         | PStr s \<Rightarrow> Inr (text_segment s)
         | _ \<Rightarrow> map_sum id text_segment (dumps_or segment (rp segment)))"

fun to_text_segments :: "(pyval \<Rightarrow> string) \<Rightarrow> pyval list \<Rightarrow> pyexn + pyval list" where
  \<comment> \<open>\<open>for seg in raw_content: content_segments.append(_to_text_segment(seg))\<close>\<close>
  "to_text_segments rp [] = Inr []"
| "to_text_segments rp (seg # segs) =
     (case to_text_segment rp seg of
        Inl e \<Rightarrow> Inl e
      | Inr t \<Rightarrow> (case to_text_segments rp segs of Inl e \<Rightarrow> Inl e | Inr ts \<Rightarrow> Inr (t # ts)))"

definition payload :: "pyval \<Rightarrow> pyval" where
  "payload mcp_result =
     py_or (py_getattr mcp_result ''data'' PNone)
       (py_or (py_getattr mcp_result ''structured_content'' PNone)
          (py_or (py_getattr mcp_result ''content'' PNone) mcp_result))"

definition text_payload :: "(pyval \<Rightarrow> string) \<Rightarrow> pyval \<Rightarrow> pyexn + string" where
  "text_payload rp p = (case p of PStr s \<Rightarrow> Inr s | _ \<Rightarrow> dumps_or p (rp p))"

definition content_segments :: "(pyval \<Rightarrow> string) \<Rightarrow> pyval \<Rightarrow> pyexn + pyval list" where
  \<comment> \<open>the value of \<open>content_segments\<close> when the result block is built\<close>
  "content_segments rp mcp_result =
     (case (case py_getattr mcp_result ''content'' PNone of
              PList raw_content \<Rightarrow> to_text_segments rp raw_content
            | _ \<Rightarrow> Inr []) of
        Inl e \<Rightarrow> Inl e
      | Inr segs \<Rightarrow>
          if segs \<noteq> [] then Inr segs
          else (case text_payload rp (payload mcp_result) of
                  Inl e \<Rightarrow> Inl e
                | Inr s \<Rightarrow> Inr [text_segment s]))"



definition angle_repr :: "pyval \<Rightarrow> string" where
  \<comment> \<open>one instance of \<open>repr\<close>, for the closed examples\<close>
  "angle_repr v = ''<'' @ type_name v @ ''>''"

section \<open>The schema catalog (\<open>MCPBridge.claude_tool_schemas\<close>)\<close>

record schema =
  schema_name :: pyval
  schema_description :: pyval
  schema_input_schema :: pyval

definition tool_schema :: "pyval \<Rightarrow> pyexn + schema option" where
  \<comment> \<open>one iteration of the loop of \<open>claude_tool_schemas\<close>: \<open>None\<close> is \<open>continue\<close>\<close>
  "tool_schema t =
     (case or_else (py_getattr t ''name'' PNone) (py_get t ''name'' PNone) of
        Inl e \<Rightarrow> Inl e
      | Inr name \<Rightarrow>
     (case or_else (py_getattr t ''description'' (PStr []))
             (py_get t ''description'' (PStr [])) of
        Inl e \<Rightarrow> Inl e
      | Inr desc \<Rightarrow>
     (case or_else (py_getattr t ''inputSchema'' PNone)
             (or_else (py_getattr t ''input_schema'' PNone)
                (case py_get t ''inputSchema'' PNone of
                   Inl e \<Rightarrow> Inl e
                 | Inr a \<Rightarrow>
                     or_else a
                       (case py_get t ''input_schema'' PNone of
                          Inl e \<Rightarrow> Inl e
                        | Inr b \<Rightarrow> Inr (py_or b (PDict []))))) of
        Inl e \<Rightarrow> Inl e
      | Inr input_schema \<Rightarrow>
          if \<not> truthy name then Inr None
          else Inr (Some \<lparr>schema_name = name, schema_description = desc,
                          schema_input_schema = input_schema\<rparr>))))"

fun schemas_of :: "pyval list \<Rightarrow> pyexn + schema list" where
  \<comment> \<open>\<open>for t in tools: ...\<close> of \<open>claude_tool_schemas\<close>\<close>
  "schemas_of [] = Inr []"
| "schemas_of (t # ts) =
     (case tool_schema t of
        Inl e \<Rightarrow> Inl e
      | Inr None \<Rightarrow> schemas_of ts
      | Inr (Some s) \<Rightarrow> (case schemas_of ts of Inl e \<Rightarrow> Inl e | Inr ss \<Rightarrow> Inr (s # ss)))"

definition tool_schema_old :: "pyval \<Rightarrow> schema option" where
  \<comment> \<open>one iteration of the loop of \<open>claude_tool_schemas_old\<close>\<close>
  "tool_schema_old t =
     (let name = py_getattr t ''name'' PNone;
          desc = py_or (py_getattr t ''description'' (PStr [])) (PStr []);
          input_schema =
            py_or (py_getattr t ''input_schema'' PNone)
              (py_or (py_getattr t ''inputSchema'' PNone) (PDict []))
      in if \<not> truthy name then None
         else Some \<lparr>schema_name = name, schema_description = desc,
                     schema_input_schema = input_schema\<rparr>)"

definition schemas_of_old :: "pyval list \<Rightarrow> schema list" where
  "schemas_of_old tools = List.map_filter tool_schema_old tools"

section \<open>The conversation (\<open>ask_claude_with_mcp\<close>)\<close>

text \<open>
  A content block of a model response is a text block, a tool-use block, or a block of
  another type; the source reads the fields of a block as attributes or, failing that, as
  keys, and the datatype stands for both. A history entry has a role and a content: the
  user's text, the blocks of an assistant message, or the tool-result blocks sent back under
  the role \<open>user\<close>. The key of a conversation is the integer chat id of \<open>bot.py\<close>
  (\<open>main_claude.py\<close> has the same function over a session name).
\<close>

datatype block =
    is_Text: Text string
  | is_ToolUse: ToolUse (tu_id: string) (tu_name: string) (tu_input: pyval)
  | OtherBlock string

definition tool_uses :: "block list \<Rightarrow> block list" where
  \<comment> \<open>the blocks of type \<open>tool_use\<close>, in order\<close>
  "tool_uses cbs = filter is_ToolUse cbs"

datatype tool_result =
  ToolResult (tool_use_id: string) (result_content: "pyval list") (is_error: bool)

datatype message_content =
    UserText string
  | Blocks "block list"
  | ToolResults "tool_result list"

datatype role = User | Assistant

datatype turn = Turn (role: role) (content: message_content)

record response =
  stop_reason :: "string option"
  resp_content :: "block list"

text \<open>
  The collaborators, over a state \<open>'w\<close> of the outside world that each call may change:
  the tool service (\<open>list_tools\<close>, \<open>call_tool\<close>) and the model service
  (\<open>messages_create\<close>, given the tools and the messages). Each returns a value or raises.
\<close>

record 'w env =
  list_tools :: "'w \<Rightarrow> (pyexn + pyval list) \<times> 'w"
  call_tool :: "string \<Rightarrow> pyval \<Rightarrow> 'w \<Rightarrow> (pyexn + pyval) \<times> 'w"
  messages_create :: "schema list \<Rightarrow> turn list \<Rightarrow> 'w \<Rightarrow> (pyexn + response) \<times> 'w"
  py_repr :: "pyval \<Rightarrow> string"

definition claude_tool_schemas :: "'w env \<Rightarrow> 'w \<Rightarrow> (pyexn + schema list) \<times> 'w" where
  "claude_tool_schemas env w =
     (case list_tools env w of
        (Inl e, w') \<Rightarrow> (Inl e, w')
      | (Inr tools, w') \<Rightarrow> (schemas_of tools, w'))"

definition claude_tool_schemas_old :: "'w env \<Rightarrow> 'w \<Rightarrow> (pyexn + schema list) \<times> 'w" where
  "claude_tool_schemas_old env w =
     (case list_tools env w of
        (Inl e, w') \<Rightarrow> (Inl e, w')
      | (Inr tools, w') \<Rightarrow> (Inr (schemas_of_old tools), w'))"

subsection \<open>The final text\<close>

fun texts_of :: "block list \<Rightarrow> string list" where
  \<comment> \<open>\<open>texts\<close>: the text of every block of type \<open>text\<close>, in order\<close>
  "texts_of [] = []"
| "texts_of (Text t # cbs) = t # texts_of cbs"
| "texts_of (cb # cbs) = texts_of cbs"

definition final_text :: "block list \<Rightarrow> string" where
  \<comment> \<open>\<open>"\n".join(texts).strip() or "(no text returned)"\<close>\<close>
  "final_text content_blocks =
     (let final = py_strip (py_join [CHR 0x0A] (texts_of content_blocks))
      in if final = [] then ''(no text returned)'' else final)"

subsection \<open>Executing the tool-use blocks\<close>

definition error_block :: "string \<Rightarrow> pyexn \<Rightarrow> tool_result" where
  \<comment> \<open>the block built by \<open>except Exception as e\<close>\<close>
  "error_block tid e = ToolResult tid [text_segment (''Tool error: '' @ exn_repr e)] True"

definition tool_result_block :: "'w env \<Rightarrow> string \<Rightarrow> string \<Rightarrow> pyval \<Rightarrow> 'w \<Rightarrow> tool_result \<times> 'w" where
  \<comment> \<open>the \<open>try\<close> statement for one tool-use block: the log line serialises the arguments,
      then the tool is called and its result normalised; any exception gives the error block\<close>
  "tool_result_block env tid tool_name tool_args w =
     (case json_dumps tool_args of
        Inl e \<Rightarrow> (error_block tid e, w)
      | Inr logged \<Rightarrow>
          (case call_tool env tool_name tool_args w of
             (Inl e, w') \<Rightarrow> (error_block tid e, w')
           | (Inr mcp_result, w') \<Rightarrow>
               (case content_segments (py_repr env) mcp_result of
                  Inl e \<Rightarrow> (error_block tid e, w')
                | Inr segs \<Rightarrow> (ToolResult tid segs False, w'))))"

fun run_tools :: "'w env \<Rightarrow> block list \<Rightarrow> 'w \<Rightarrow> tool_result list \<times> 'w" where
  \<comment> \<open>\<open>for cb in content_blocks\<close>: the value of \<open>tool_results_blocks\<close> after the loop\<close>
  "run_tools env [] w = ([], w)"
| "run_tools env (ToolUse tid tool_name tool_args # cbs) w =
     (case tool_result_block env tid tool_name tool_args w of
        (r, w1) \<Rightarrow> (case run_tools env cbs w1 of (rs, w2) \<Rightarrow> (r # rs, w2)))"
| "run_tools env (cb # cbs) w = run_tools env cbs w"

subsection \<open>The store\<close>

text \<open>
  The module-level dict \<open>histories\<close> maps a chat id to a list object. List objects live in
  a heap, by address, so that two names for one list are one address; \<open>next_addr\<close> is the
  first address not yet given out. \<open>commits\<close> counts the assignments to \<open>histories\<close>: it
  is not in the source and nothing reads it.
\<close>

record pystate =
  heap :: "nat \<Rightarrow> turn list"
  next_addr :: nat
  histories :: "int \<Rightarrow> nat option"
  commits :: nat

definition new_list :: "turn list \<Rightarrow> pystate \<Rightarrow> nat \<times> pystate" where
  \<comment> \<open>a new list object with the given elements\<close>
  "new_list xs st =
     (next_addr st, st\<lparr>heap := (heap st)(next_addr st := xs), next_addr := Suc (next_addr st)\<rparr>)"

definition histories_get :: "int \<Rightarrow> pystate \<Rightarrow> nat \<times> pystate" where
  \<comment> \<open>\<open>histories.get(chat_id, [])\<close>: the stored list itself, or a new empty list\<close>
  "histories_get chat_id st =
     (case histories st chat_id of Some a \<Rightarrow> (a, st) | None \<Rightarrow> new_list [] st)"

definition list_plus :: "nat \<Rightarrow> turn list \<Rightarrow> pystate \<Rightarrow> nat \<times> pystate" where
  \<comment> \<open>\<open>history + [...]\<close>: a new list\<close>
  "list_plus a xs st = new_list (heap st a @ xs) st"

definition list_append :: "nat \<Rightarrow> turn \<Rightarrow> pystate \<Rightarrow> pystate" where
  \<comment> \<open>\<open>history.append(x)\<close>: in place\<close>
  "list_append a x st = st\<lparr>heap := (heap st)(a := heap st a @ [x])\<rparr>"

definition last_n :: "nat \<Rightarrow> 'a list \<Rightarrow> 'a list" where
  \<comment> \<open>\<open>xs[-n:]\<close> for \<open>n > 0\<close>\<close>
  "last_n n xs = drop (length xs - n) xs"

definition list_slice_last :: "nat \<Rightarrow> nat \<Rightarrow> pystate \<Rightarrow> nat \<times> pystate" where
  \<comment> \<open>\<open>history[-n:]\<close>: a new list\<close>
  "list_slice_last n a st = new_list (last_n n (heap st a)) st"

definition histories_set :: "int \<Rightarrow> nat \<Rightarrow> pystate \<Rightarrow> pystate" where
  \<comment> \<open>\<open>histories[chat_id] = a\<close>\<close>
  "histories_set chat_id a st =
     st\<lparr>histories := (histories st)(chat_id \<mapsto> a), commits := Suc (commits st)\<rparr>"

definition stored :: "pystate \<Rightarrow> int \<Rightarrow> turn list" where
  \<comment> \<open>the turns stored for a chat id; none when the id has no entry\<close>
  "stored st chat_id = (case histories st chat_id of Some a \<Rightarrow> heap st a | None \<Rightarrow> [])"

definition wf_state :: "pystate \<Rightarrow> bool" where
  \<comment> \<open>every stored list is an allocated object\<close>
  "wf_state st = (\<forall>chat_id a. histories st chat_id = Some a \<longrightarrow> a < next_addr st)"

subsection \<open>The loop\<close>

datatype outcome = Returned string | Raised pyexn | Running

definition loop_body :: "'w env \<Rightarrow> schema list \<Rightarrow> int \<Rightarrow> nat \<Rightarrow> 'w \<times> pystate \<Rightarrow> outcome \<times> 'w \<times> pystate" where
  \<comment> \<open>one iteration of \<open>while True\<close>; \<open>history\<close> is the address of the list the loop appends
      to; \<open>Running\<close> means the iteration ended without \<open>return\<close>\<close>
  "loop_body env tools chat_id history wst =
     (case wst of (w, st) \<Rightarrow>
      (case messages_create env tools (heap st history) w of
         (Inl e, w1) \<Rightarrow> (Raised e, w1, st)
       | (Inr resp, w1) \<Rightarrow>
           (let content_blocks = resp_content resp;
                st1 = list_append history (Turn Assistant (Blocks content_blocks)) st
            in if stop_reason resp \<noteq> Some ''tool_use'' then
                 (case list_slice_last 20 history st1 of
                    (a, st2) \<Rightarrow> (Returned (final_text content_blocks), w1, histories_set chat_id a st2))
               else
                 (case run_tools env content_blocks w1 of
                    (tool_results_blocks, w2) \<Rightarrow>
                      (Running, w2,
                       list_append history (Turn User (ToolResults tool_results_blocks)) st1)))))"

fun ask_loop :: "nat \<Rightarrow> 'w env \<Rightarrow> schema list \<Rightarrow> int \<Rightarrow> nat \<Rightarrow> 'w \<times> pystate \<Rightarrow> outcome \<times> 'w \<times> pystate" where
  \<comment> \<open>\<open>while True\<close> with fuel: at most that many iterations; \<open>Running\<close> when they are used up\<close>
  "ask_loop 0 env tools chat_id history wst = (Running, wst)"
| "ask_loop (Suc n) env tools chat_id history wst =
     (case loop_body env tools chat_id history wst of
        (Running, wst') \<Rightarrow> ask_loop n env tools chat_id history wst'
      | res \<Rightarrow> res)"

fun history_after :: "nat \<Rightarrow> 'w env \<Rightarrow> schema list \<Rightarrow> turn list \<Rightarrow> 'w \<Rightarrow> turn list" where
  \<comment> \<open>the elements of the list \<open>history\<close> when the loop stops (by \<open>return\<close>, by a raise
      of the model request, or with the fuel used up), from its elements and the world when
      the loop is entered\<close>
  "history_after 0 env tools hist w = hist"
| "history_after (Suc n) env tools hist w =
     (case messages_create env tools hist w of
        (Inl e, w1) \<Rightarrow> hist
      | (Inr resp, w1) \<Rightarrow>
          (let hist1 = hist @ [Turn Assistant (Blocks (resp_content resp))]
           in if stop_reason resp \<noteq> Some ''tool_use'' then hist1
              else (case run_tools env (resp_content resp) w1 of
                      (tool_results_blocks, w2) \<Rightarrow>
                        history_after n env tools
                          (hist1 @ [Turn User (ToolResults tool_results_blocks)]) w2)))"

definition ask_claude_with_mcp :: "nat \<Rightarrow> 'w env \<Rightarrow> int \<Rightarrow> string \<Rightarrow> 'w \<times> pystate \<Rightarrow> outcome \<times> 'w \<times> pystate" where
  "ask_claude_with_mcp fuel env chat_id user_text wst =
     (case wst of (w, st) \<Rightarrow>
      (case claude_tool_schemas env w of
         (Inl e, w0) \<Rightarrow> (Raised e, w0, st)
       | (Inr tools, w0) \<Rightarrow>
           (case histories_get chat_id st of
              (history0, st0) \<Rightarrow>
                (case list_plus history0 [Turn User (UserText user_text)] st0 of
                   (history, st1) \<Rightarrow> ask_loop fuel env tools chat_id history (w0, st1)))))"

fun exchanges :: "nat \<Rightarrow> 'w env \<Rightarrow> int \<Rightarrow> string list \<Rightarrow> 'w \<times> pystate \<Rightarrow> ('w \<times> pystate) option" where
  \<comment> \<open>exchanges on one chat id, one after the other, each completed; \<open>None\<close> when one of
      them does not return\<close>
  "exchanges fuel env chat_id [] wst = Some wst"
| "exchanges fuel env chat_id (user_text # rest) wst =
     (case ask_claude_with_mcp fuel env chat_id user_text wst of
        (Returned final, wst') \<Rightarrow> exchanges fuel env chat_id rest wst'
      | _ \<Rightarrow> None)"

section \<open>The statements compared with the code\<close>





section \<open>Closed examples\<close>


definition unnamed_tool :: pyval where
  \<comment> \<open>an attribute-style tool descriptor whose name is the empty string\<close>
  "unnamed_tool =
     PObj ''Tool''
       [(''name'', PStr []),
        (''description'', PStr ''Quote a symbol''),
        (''inputSchema'', PDict [(''type'', PStr ''object'')])]
       None"

definition undescribed_tool :: pyval where
  \<comment> \<open>an attribute-style tool descriptor with a name and no description\<close>
  "undescribed_tool =
     PObj ''Tool''
       [(''name'', PStr ''quote''),
        (''description'', PNone),
        (''inputSchema'', PDict [(''type'', PStr ''object'')])]
       None"

definition initial_state :: pystate where
  \<comment> \<open>\<open>histories = {}\<close>, and no list allocated\<close>
  "initial_state = \<lparr>heap = (\<lambda>a. []), next_addr = 0, histories = (\<lambda>k. None), commits = 0\<rparr>"

definition scripted :: "(pyexn + pyval list) \<Rightarrow> (string \<Rightarrow> pyval \<Rightarrow> pyexn + pyval)
    \<Rightarrow> ((pyexn + response) list) env" where
  \<comment> \<open>collaborators for the examples: the world is the list of the model's next answers
      (the request fails when none is left); the tool service is a fixed function\<close>
  "scripted listing tool =
     \<lparr>list_tools = (\<lambda>w. (listing, w)),
      call_tool = (\<lambda>nm args w. (tool nm args, w)),
      messages_create =
        (\<lambda>tools msgs w.
           case w of
             [] \<Rightarrow> (Inl (PyExn ''APIConnectionError'' ''APIConnectionError()''), [])
           | r # rs \<Rightarrow> (r, rs)),
      py_repr = angle_repr\<rparr>"

definition quote_args :: pyval where
  "quote_args = PDict [(''symbols'', PList [PStr ''BTC/USDT''])]"

definition quote_request :: response where
  \<comment> \<open>the model asks for one tool call\<close>
  "quote_request =
     \<lparr>stop_reason = Some ''tool_use'', resp_content = [ToolUse ''t1'' ''quote'' quote_args]\<rparr>"

definition quote_answer :: response where
  \<comment> \<open>the model's final answer\<close>
  "quote_answer =
     \<lparr>stop_reason = Some ''end_turn'', resp_content = [Text ''BTC is up 1.2% at $65,000.'']\<rparr>"

definition quote_tool :: "string \<Rightarrow> pyval \<Rightarrow> pyexn + pyval" where
  \<comment> \<open>a tool service that answers every call with one text segment\<close>
  "quote_tool nm args =
     Inr (PObj ''CallToolResult''
            [(''content'',
              PList [PObj ''TextContent'' []
                       (Some (PDict [(''type'', PStr ''text''),
                                     (''text'', PStr ''BTC/USDT: 65000, +1.2%'')]))])]
            None)"

definition connection_refused :: pyexn where
  "connection_refused = PyExn ''ConnectionRefusedError'' ''ConnectionRefusedError()''"

definition refusing_tool :: "string \<Rightarrow> pyval \<Rightarrow> pyexn + pyval" where
  \<comment> \<open>a tool service that raises on every call\<close>
  "refusing_tool nm args = Inl connection_refused"

definition truncated_request :: response where
  \<comment> \<open>a response cut off at the token limit, with a tool-use block in it\<close>
  "truncated_request =
     \<lparr>stop_reason = Some ''max_tokens'', resp_content = [ToolUse ''t1'' ''quote'' quote_args]\<rparr>"

definition empty_tool_use :: response where
  \<comment> \<open>a response that signals tool use and has no tool-use block\<close>
  "empty_tool_use = \<lparr>stop_reason = Some ''tool_use'', resp_content = [Text ''hi'']\<rparr>"

definition padded_answer :: response where
  \<comment> \<open>a final answer with white space around its text\<close>
  "padded_answer = \<lparr>stop_reason = Some ''end_turn'', resp_content = [Text '' hi'']\<rparr>"

definition asked_state :: pystate where
  \<comment> \<open>the state when the loop is entered for the first exchange of a chat: the list at
      address 1 holds the user's turn\<close>
  "asked_state =
     \<lparr>heap = (\<lambda>a. [])(1 := [Turn User (UserText ''What is BTC doing?'')]),
      next_addr = 2, histories = (\<lambda>k. None), commits = 0\<rparr>"

definition numbered_turns :: "nat list \<Rightarrow> turn list" where
  \<comment> \<open>user turns whose texts are the given numbers\<close>
  "numbered_turns ns = map (\<lambda>n. Turn User (UserText (show_nat n))) ns"

definition full_state :: pystate where
  \<comment> \<open>a store that holds 20 turns, numbered 0 to 19, for chat id 7\<close>
  "full_state =
     \<lparr>heap = (\<lambda>a. [])(0 := numbered_turns [0..<20]),
      next_addr = 1, histories = (\<lambda>k. None)(7 := Some 0), commits = 1\<rparr>"


section \<open>The allow-list\<close>







section \<open>The normaliser\<close>















section \<open>The schema catalog\<close>

lemma tool_schema_name_truthy:
  "tool_schema t = Inr (Some s) \<Longrightarrow> truthy (schema_name s)"
  by (auto simp: tool_schema_def split: sum.splits if_splits)

lemma schemas_of_names_truthy:
  "schemas_of tools = Inr ss \<Longrightarrow> s \<in> set ss \<Longrightarrow> truthy (schema_name s)"
  by (induction tools arbitrary: ss)
     (auto split: sum.splits option.splits dest: tool_schema_name_truthy)

lemma tool_schema_mapping:
  "\<exists>r. tool_schema (PDict kvs) = Inr r"
  by (simp add: tool_schema_def or_else_def)

lemma schemas_of_mappings:
  "\<forall>t\<in>set tools. \<exists>kvs. t = PDict kvs \<Longrightarrow> \<exists>ss. schemas_of tools = Inr ss"
proof (induction tools)
  case Nil
  then show ?case by simp
next
  case (Cons t ts)
  then obtain kvs where "t = PDict kvs" by auto
  then obtain r where "tool_schema t = Inr r" using tool_schema_mapping by blast
  with Cons show ?case by (cases r) auto
qed

text \<open>
  C9. The claim is what the code should do and does not. An attribute-style descriptor
  whose name is empty is not skipped: the fallback \<open>t.get("name")\<close> is called on an object
  that has no \<open>get\<close>, and the conversion raises \<open>AttributeError\<close>. So does an
  attribute-style descriptor with a name and no description. The older conversion,
  \<open>claude_tool_schemas_old\<close>, skips the first and converts the second.
\<close>

theorem claude_tool_schemas_attribute_style_raises:
  "fst (claude_tool_schemas (env\<lparr>list_tools := \<lambda>w. (Inr [unnamed_tool], w)\<rparr>) w)
     = Inl (attribute_error unnamed_tool ''get'')
   \<and> fst (claude_tool_schemas_old (env\<lparr>list_tools := \<lambda>w. (Inr [unnamed_tool], w)\<rparr>) w)
       = Inr []
   \<and> fst (claude_tool_schemas (env\<lparr>list_tools := \<lambda>w. (Inr [undescribed_tool], w)\<rparr>) w)
       = Inl (attribute_error undescribed_tool ''get'')
   \<and> fst (claude_tool_schemas_old (env\<lparr>list_tools := \<lambda>w. (Inr [undescribed_tool], w)\<rparr>) w)
       = Inr [\<lparr>schema_name = PStr ''quote'', schema_description = PStr [],
               schema_input_schema = PDict [(''type'', PStr ''object'')]\<rparr>]"
  by (simp add: claude_tool_schemas_def claude_tool_schemas_old_def schemas_of_old_def
        List.map_filter_def tool_schema_def tool_schema_old_def or_else_def py_or_def
        unnamed_tool_def undescribed_tool_def)

section \<open>The tool-use round\<close>

lemma tool_result_block_id:
  "tool_use_id (fst (tool_result_block env tid nm args w)) = tid"
  by (simp add: tool_result_block_def error_block_def split: sum.splits prod.splits)

lemma run_tools_ids:
  "run_tools env cbs w = (rs, w') \<Longrightarrow> map tool_use_id rs = map tu_id (tool_uses cbs)"
proof (induction env cbs w arbitrary: rs w' rule: run_tools.induct)
  case (2 env tid tool_name tool_args cbs w)
  then show ?case
    using tool_result_block_id [of env tid tool_name tool_args w]
    by (auto simp: tool_uses_def split: prod.splits)
qed (auto simp: tool_uses_def)

lemma run_tools_own:
  "run_tools env cbs w = (rs, w') \<Longrightarrow>
   list_all2 (\<lambda>cb r. \<exists>wi. r = fst (tool_result_block env (tu_id cb) (tu_name cb) (tu_input cb) wi))
     (tool_uses cbs) rs"
proof (induction env cbs w arbitrary: rs w' rule: run_tools.induct)
  case (2 env tid tool_name tool_args cbs w)
  then show ?case
    by (auto simp: tool_uses_def split: prod.splits intro: exI [of _ w])
qed (auto simp: tool_uses_def)

lemma run_tools_no_uses:
  "tool_uses cbs = [] \<Longrightarrow> run_tools env cbs w = ([], w)"
  by (induction env cbs w rule: run_tools.induct) (auto simp: tool_uses_def)

lemma run_tools_append:
  "run_tools env (pre @ post) w =
     (case run_tools env pre w of (rs1, wi) \<Rightarrow>
        (case run_tools env post wi of (rs2, w') \<Rightarrow> (rs1 @ rs2, w')))"
  by (induction env pre w rule: run_tools.induct) (auto split: prod.splits)

text \<open>
  C1, amended. In every round whose model turn signals tool use (\<open>stop_reason\<close> is
  \<open>tool_use\<close>), the loop appends the assistant turn and then one turn whose content is
  exactly the list of result blocks: one block per tool-use block of the assistant turn, in
  the order of the requests, each carrying its request's id and computed from that request
  alone, whether the call succeeded or failed. Two requests with the same id get one block
  each.
\<close>

theorem tool_use_round:
  assumes model: "messages_create env tools (heap st history) w = (Inr resp, w1)"
      and stop: "stop_reason resp = Some ''tool_use''"
  shows "\<exists>rs w2.
      run_tools env (resp_content resp) w1 = (rs, w2)
    \<and> loop_body env tools chat_id history (w, st)
        = (Running, w2,
           list_append history (Turn User (ToolResults rs))
             (list_append history (Turn Assistant (Blocks (resp_content resp))) st))
    \<and> heap (snd (snd (loop_body env tools chat_id history (w, st)))) history
        = heap st history @ [Turn Assistant (Blocks (resp_content resp)), Turn User (ToolResults rs)]
    \<and> map tool_use_id rs = map tu_id (tool_uses (resp_content resp))
    \<and> list_all2
        (\<lambda>cb r. \<exists>wi. r = fst (tool_result_block env (tu_id cb) (tu_name cb) (tu_input cb) wi))
        (tool_uses (resp_content resp)) rs"
proof -
  obtain rs w2 where run: "run_tools env (resp_content resp) w1 = (rs, w2)"
    by (cases "run_tools env (resp_content resp) w1")
  have body: "loop_body env tools chat_id history (w, st)
        = (Running, w2,
           list_append history (Turn User (ToolResults rs))
             (list_append history (Turn Assistant (Blocks (resp_content resp))) st))"
    by (simp add: loop_body_def model stop run Let_def)
  show ?thesis
    using run body run_tools_ids [OF run] run_tools_own [OF run]
    by (simp add: list_append_def)
qed


section \<open>What an exchange does to the store\<close>

lemma loop_body_frame:
  assumes "loop_body env tools chat_id h (w, st) = (out, w', st')" and "h < next_addr st"
  shows "(\<forall>a. a \<noteq> h \<and> a < next_addr st \<longrightarrow> heap st' a = heap st a)
    \<and> (case out of
          Returned final \<Rightarrow>
            (\<exists>xs. xs \<noteq> [] \<and> heap st' h = heap st h @ xs)
            \<and> histories st' = (histories st)(chat_id \<mapsto> next_addr st)
            \<and> heap st' (next_addr st) = last_n 20 (heap st' h)
            \<and> next_addr st' = Suc (next_addr st)
            \<and> commits st' = Suc (commits st)
        | Raised e \<Rightarrow> st' = st
        | Running \<Rightarrow>
            (\<exists>xs. xs \<noteq> [] \<and> heap st' h = heap st h @ xs)
            \<and> histories st' = histories st
            \<and> next_addr st' = next_addr st
            \<and> commits st' = commits st)"
  using assms
  by (auto simp: loop_body_def Let_def list_append_def list_slice_last_def new_list_def
        histories_set_def
      split: prod.splits sum.splits if_splits)

lemma ask_loop_frame:
  assumes "ask_loop n env tools chat_id h (w, st) = (out, w', st')" and "h < next_addr st"
  shows "(\<forall>a. a \<noteq> h \<and> a < next_addr st \<longrightarrow> heap st' a = heap st a)
    \<and> (\<exists>xs. heap st' h = heap st h @ xs \<and> (out \<noteq> Running \<and> (\<forall>e. out \<noteq> Raised e) \<longrightarrow> xs \<noteq> []))
    \<and> (case out of
          Returned final \<Rightarrow>
            histories st' = (histories st)(chat_id \<mapsto> next_addr st)
            \<and> heap st' (next_addr st) = last_n 20 (heap st' h)
            \<and> next_addr st' = Suc (next_addr st)
            \<and> commits st' = Suc (commits st)
        | _ \<Rightarrow>
            histories st' = histories st
            \<and> next_addr st' = next_addr st
            \<and> commits st' = commits st)"
  using assms
proof (induction n arbitrary: w st)
  case 0
  then show ?case by auto
next
  case (Suc n)
  obtain o1 w1 st1 where body: "loop_body env tools chat_id h (w, st) = (o1, w1, st1)"
    by (cases "loop_body env tools chat_id h (w, st)")
  note fr = loop_body_frame [OF body Suc.prems(2)]
  show ?case
  proof (cases o1)
    case (Returned final)
    with Suc.prems body have "out = Returned final" "st' = st1" by auto
    with fr Returned Suc.prems(2) show ?thesis by auto
  next
    case (Raised e)
    with Suc.prems body have "out = Raised e" "st' = st1" by auto
    with fr Raised show ?thesis by auto
  next
    case Running
    with Suc.prems body have rec: "ask_loop n env tools chat_id h (w1, st1) = (out, w', st')"
      by auto
    from fr Running have st1: "histories st1 = histories st" "next_addr st1 = next_addr st"
      "commits st1 = commits st" "\<forall>a. a \<noteq> h \<and> a < next_addr st \<longrightarrow> heap st1 a = heap st a"
      and "\<exists>xs. xs \<noteq> [] \<and> heap st1 h = heap st h @ xs"
      by auto
    then obtain xs where xs: "xs \<noteq> []" "heap st1 h = heap st h @ xs" by blast
    have h1: "h < next_addr st1" using Suc.prems(2) st1 by simp
    note ih = Suc.IH [OF rec h1]
    from ih obtain ys where ys: "heap st' h = heap st1 h @ ys" by blast
    have ext: "heap st' h = heap st h @ (xs @ ys)" "xs @ ys \<noteq> []"
      using xs ys by auto
    show ?thesis
      using ih st1 ext by (cases out) (auto simp del: append_assoc)
  qed
qed


lemma ask_claude_with_mcp_frame:
  assumes ask: "ask_claude_with_mcp fuel env chat_id user_text (w, st) = (out, w', st')"
  shows "(\<forall>a. a < next_addr st \<longrightarrow> heap st' a = heap st a)
    \<and> next_addr st \<le> next_addr st'
    \<and> (case out of
          Returned final \<Rightarrow>
            (\<exists>c xs. next_addr st \<le> c \<and> c < next_addr st'
               \<and> histories st' = (histories st)(chat_id \<mapsto> c)
               \<and> xs \<noteq> []
               \<and> heap st' c = last_n 20 (stored st chat_id @ Turn User (UserText user_text) # xs))
            \<and> commits st' = Suc (commits st)
        | _ \<Rightarrow> histories st' = histories st \<and> commits st' = commits st)"
proof (cases "claude_tool_schemas env w")
  case (Pair r w0)
  show ?thesis
  proof (cases r)
    case (Inl e)
    with ask Pair show ?thesis by (auto simp: ask_claude_with_mcp_def)
  next
    case (Inr tools)
    obtain h0 st0 where get: "histories_get chat_id st = (h0, st0)"
      by (cases "histories_get chat_id st")
    obtain h st1 where plus: "list_plus h0 [Turn User (UserText user_text)] st0 = (h, st1)"
      by (cases "list_plus h0 [Turn User (UserText user_text)] st0")
    from ask Pair Inr get plus
    have loop: "ask_loop fuel env tools chat_id h (w0, st1) = (out, w', st')"
      by (simp add: ask_claude_with_mcp_def)
    from get have st0: "heap st0 h0 = stored st chat_id" "next_addr st \<le> next_addr st0"
      "histories st0 = histories st" "commits st0 = commits st"
      "\<forall>a. a < next_addr st \<longrightarrow> heap st0 a = heap st a"
      by (auto simp: histories_get_def stored_def new_list_def split: option.splits)
    from plus have st1: "h = next_addr st0" "next_addr st1 = Suc (next_addr st0)"
      "heap st1 h = heap st0 h0 @ [Turn User (UserText user_text)]"
      "histories st1 = histories st0" "commits st1 = commits st0"
      "\<forall>a. a < next_addr st0 \<longrightarrow> heap st1 a = heap st0 a"
      by (auto simp: list_plus_def new_list_def)
    have hlt: "h < next_addr st1" using st1 by simp
    note fr = ask_loop_frame [OF loop hlt]
    from fr obtain xs where xs: "heap st' h = heap st1 h @ xs"
      "out \<noteq> Running \<and> (\<forall>e. out \<noteq> Raised e) \<longrightarrow> xs \<noteq> []"
      by blast
    have old: "\<forall>a. a < next_addr st \<longrightarrow> heap st' a = heap st a"
      using fr st0 st1 by auto
    show ?thesis
    proof (cases out)
      case (Returned final)
      with xs have ne: "xs \<noteq> []" by simp
      from fr Returned have r: "histories st' = (histories st1)(chat_id \<mapsto> next_addr st1)"
        "heap st' (next_addr st1) = last_n 20 (heap st' h)"
        "next_addr st' = Suc (next_addr st1)" "commits st' = Suc (commits st1)"
        by auto
      have "heap st' (next_addr st1)
          = last_n 20 (stored st chat_id @ Turn User (UserText user_text) # xs)"
        using r xs st1 st0 by simp
      with r ne st0 st1 old Returned show ?thesis
        by (auto intro!: exI [of _ "next_addr st1"] exI [of _ xs])
    next
      case (Raised e)
      with fr st0 st1 old show ?thesis by auto
    next
      case Running
      with fr st0 st1 old show ?thesis by auto
    qed
  qed
qed


lemmas run_defs =
  ask_claude_with_mcp_def claude_tool_schemas_def scripted_def histories_get_def
  list_plus_def new_list_def list_append_def list_slice_last_def histories_set_def
  loop_body_def initial_state_def stored_def last_n_def Let_def

lemma length_last_n: "length (last_n n xs) = min n (length xs)"
  by (simp add: last_n_def)

lemma suffix_last_n: "suffix (last_n n xs) xs"
  by (simp add: last_n_def suffix_drop)

lemma ask_returned_stored:
  assumes "ask_claude_with_mcp fuel env chat_id user_text (w, st) = (Returned final, w', st')"
  shows "\<exists>inflight. inflight \<noteq> []
     \<and> stored st' chat_id = last_n 20 (stored st chat_id @ Turn User (UserText user_text) # inflight)"
  using ask_claude_with_mcp_frame [OF assms] by (auto simp: stored_def)

lemma exchanges_length:
  "exchanges fuel env chat_id texts (w, st) = Some (w2, st2) \<Longrightarrow>
   min 20 (length (stored st chat_id) + 2 * length texts) \<le> length (stored st2 chat_id)
   \<and> (texts \<noteq> [] \<longrightarrow> length (stored st2 chat_id) \<le> 20)"
proof (induction texts arbitrary: w st)
  case Nil
  then show ?case by simp
next
  case (Cons user_text rest)
  obtain out w1 st1 where ask: "ask_claude_with_mcp fuel env chat_id user_text (w, st) = (out, w1, st1)"
    by (cases "ask_claude_with_mcp fuel env chat_id user_text (w, st)")
  with Cons.prems obtain final where out: "out = Returned final"
    and rest: "exchanges fuel env chat_id rest (w1, st1) = Some (w2, st2)"
    by (cases out) auto
  from ask_returned_stored [OF ask [unfolded out]] obtain inflight where
    inf: "inflight \<noteq> []"
      "stored st1 chat_id = last_n 20 (stored st chat_id @ Turn User (UserText user_text) # inflight)"
    by blast
  have "1 \<le> length inflight" using inf(1) by (cases inflight) auto
  then have len1: "min 20 (length (stored st chat_id) + 2) \<le> length (stored st1 chat_id)"
    "length (stored st1 chat_id) \<le> 20"
    by (auto simp: inf(2) length_last_n)
  note ih = Cons.IH [OF rest]
  show ?case
  proof (cases "rest = []")
    case True
    with rest len1 show ?thesis by simp
  next
    case False
    with ih len1 show ?thesis by auto
  qed
qed

lemma history_after_extends:
  "\<exists>xs. history_after n env tools hist w = hist @ xs"
proof (induction n arbitrary: hist w)
  case 0
  then show ?case by simp
next
  case (Suc n)
  show ?case
  proof (cases "messages_create env tools hist w")
    case (Pair r w1)
    show ?thesis
    proof (cases r)
      case (Inl e)
      with Pair show ?thesis by simp
    next
      case (Inr resp)
      show ?thesis
      proof (cases "stop_reason resp \<noteq> Some ''tool_use''")
        case True
        with Pair Inr show ?thesis by (simp add: Let_def)
      next
        case False
        obtain rs w2 where run: "run_tools env (resp_content resp) w1 = (rs, w2)"
          by (cases "run_tools env (resp_content resp) w1")
        from Suc.IH [of "(hist @ [Turn Assistant (Blocks (resp_content resp))])
              @ [Turn User (ToolResults rs)]" w2]
        obtain xs where "history_after n env tools
            ((hist @ [Turn Assistant (Blocks (resp_content resp))]) @ [Turn User (ToolResults rs)]) w2
            = ((hist @ [Turn Assistant (Blocks (resp_content resp))]) @ [Turn User (ToolResults rs)]) @ xs"
          by blast
        with Pair Inr False run show ?thesis by (simp add: Let_def)
      qed
    qed
  qed
qed

lemma ask_loop_history:
  assumes "ask_loop n env tools chat_id h (w, st) = (out, w', st')" and "h < next_addr st"
  shows "heap st' h = history_after n env tools (heap st h) w"
  using assms
proof (induction n arbitrary: w st)
  case 0
  then show ?case by simp
next
  case (Suc n)
  show ?case
  proof (cases "messages_create env tools (heap st h) w")
    case (Pair r w1)
    show ?thesis
    proof (cases r)
      case (Inl e)
      with Pair Suc.prems show ?thesis by (auto simp: loop_body_def)
    next
      case (Inr resp)
      show ?thesis
      proof (cases "stop_reason resp \<noteq> Some ''tool_use''")
        case True
        with Pair Inr Suc.prems show ?thesis
          by (auto simp: loop_body_def Let_def list_append_def list_slice_last_def new_list_def
              histories_set_def)
      next
        case False
        obtain rs w2 where run: "run_tools env (resp_content resp) w1 = (rs, w2)"
          by (cases "run_tools env (resp_content resp) w1")
        let ?st2 = "list_append h (Turn User (ToolResults rs))
            (list_append h (Turn Assistant (Blocks (resp_content resp))) st)"
        from Pair Inr False run
        have body: "loop_body env tools chat_id h (w, st) = (Running, w2, ?st2)"
          by (simp add: loop_body_def Let_def)
        with Suc.prems have rec: "ask_loop n env tools chat_id h (w2, ?st2) = (out, w', st')"
          by simp
        have lt: "h < next_addr ?st2" using Suc.prems(2) by (simp add: list_append_def)
        have hp: "heap ?st2 h = (heap st h @ [Turn Assistant (Blocks (resp_content resp))])
            @ [Turn User (ToolResults rs)]"
          by (simp add: list_append_def)
        from Suc.IH [OF rec lt] hp Pair Inr False run show ?thesis
          by (simp add: Let_def)
      qed
    qed
  qed
qed

lemma ask_returned_history:
  assumes ask: "ask_claude_with_mcp fuel env chat_id user_text (w, st) = (Returned final, w', st')"
      and sch: "claude_tool_schemas env w = (Inr tools, w0)"
  shows "stored st' chat_id
      = last_n 20 (history_after fuel env tools
                     (stored st chat_id @ [Turn User (UserText user_text)]) w0)
    \<and> length (stored st chat_id) + 2
        \<le> length (history_after fuel env tools
                     (stored st chat_id @ [Turn User (UserText user_text)]) w0)"
proof -
  obtain h0 st0 where get: "histories_get chat_id st = (h0, st0)"
    by (cases "histories_get chat_id st")
  obtain h st1 where plus: "list_plus h0 [Turn User (UserText user_text)] st0 = (h, st1)"
    by (cases "list_plus h0 [Turn User (UserText user_text)] st0")
  from ask sch get plus
  have loop: "ask_loop fuel env tools chat_id h (w0, st1) = (Returned final, w', st')"
    by (simp add: ask_claude_with_mcp_def)
  from get have st0: "heap st0 h0 = stored st chat_id"
    by (auto simp: histories_get_def stored_def new_list_def split: option.splits)
  from plus have st1: "h = next_addr st0" "next_addr st1 = Suc (next_addr st0)"
    "heap st1 h = heap st0 h0 @ [Turn User (UserText user_text)]"
    by (auto simp: list_plus_def new_list_def)
  have hlt: "h < next_addr st1" using st1 by simp
  note fr = ask_loop_frame [OF loop hlt]
  note hi = ask_loop_history [OF loop hlt]
  from fr obtain xs where xs: "heap st' h = heap st1 h @ xs" "xs \<noteq> []" by auto
  from fr have c: "histories st' chat_id = Some (next_addr st1)"
    "heap st' (next_addr st1) = last_n 20 (heap st' h)"
    by auto
  have full: "heap st' h = history_after fuel env tools
      (stored st chat_id @ [Turn User (UserText user_text)]) w0"
    using hi st1 st0 by simp
  have "1 \<le> length xs" using xs(2) by (cases xs) auto
  then have "length (stored st chat_id) + 2 \<le> length (heap st' h)"
    using xs(1) st1 st0 by simp
  with c full show ?thesis by (simp add: stored_def)
qed

text \<open>
  C4. After a completed exchange the turns stored for the chat id are the last 20 of the
  list the loop has built: the earlier stored turns, the user's turn, and the turns the
  rounds of this exchange appended (\<open>history_after\<close>), at least one. The stored turns
  are that list without its first \<open>length - 20\<close> elements: at most 20, a suffix of it, so
  the most recent ones in order and without gaps, the oldest dropped. For an exchange of
  one round they are the last 20 of the earlier turns, the user's turn and the assistant's
  turn. After 25 completed exchanges on one chat id the stored length is 20.
\<close>

theorem stored_history_capped:
  "(ask_claude_with_mcp fuel env chat_id user_text (w, st) = (Returned final, w', st')
      \<and> claude_tool_schemas env w = (Inr tools, w0) \<longrightarrow>
      (let full = history_after fuel env tools
                    (stored st chat_id @ [Turn User (UserText user_text)]) w0
       in stored st' chat_id = drop (length full - 20) full
          \<and> length (stored st' chat_id) \<le> 20
          \<and> suffix (stored st' chat_id) full
          \<and> prefix (stored st chat_id @ [Turn User (UserText user_text)]) full
          \<and> length (stored st chat_id) + 2 \<le> length full))
   \<and> (ask_claude_with_mcp fuel env chat_id user_text (w, st) = (Returned final, w', st')
        \<and> claude_tool_schemas env w = (Inr tools, w0)
        \<and> messages_create env tools (stored st chat_id @ [Turn User (UserText user_text)]) w0
            = (Inr resp, w1)
        \<and> stop_reason resp \<noteq> Some ''tool_use'' \<longrightarrow>
        stored st' chat_id
          = drop (length (stored st chat_id) + 2 - 20)
              (stored st chat_id
               @ [Turn User (UserText user_text), Turn Assistant (Blocks (resp_content resp))]))
   \<and> (exchanges fuel env chat_id texts (w, st) = Some (w2, st2) \<and> length texts = 25 \<longrightarrow>
        length (stored st2 chat_id) = 20)"
proof (intro conjI impI)
  assume a: "ask_claude_with_mcp fuel env chat_id user_text (w, st) = (Returned final, w', st')
      \<and> claude_tool_schemas env w = (Inr tools, w0)"
  define full where "full = history_after fuel env tools
                    (stored st chat_id @ [Turn User (UserText user_text)]) w0"
  from a ask_returned_history [of fuel env chat_id user_text w st final w' st' tools w0]
  have s: "stored st' chat_id = last_n 20 full" "length (stored st chat_id) + 2 \<le> length full"
    by (auto simp: full_def)
  have p: "prefix (stored st chat_id @ [Turn User (UserText user_text)]) full"
    using history_after_extends [of fuel env tools
        "stored st chat_id @ [Turn User (UserText user_text)]" w0]
    by (auto simp: full_def prefix_def)
  have all: "stored st' chat_id = drop (length full - 20) full
          \<and> length (stored st' chat_id) \<le> 20
          \<and> suffix (stored st' chat_id) full
          \<and> prefix (stored st chat_id @ [Turn User (UserText user_text)]) full
          \<and> length (stored st chat_id) + 2 \<le> length full"
    using s p by (simp add: last_n_def suffix_drop)
  show "let full = history_after fuel env tools
                    (stored st chat_id @ [Turn User (UserText user_text)]) w0
       in stored st' chat_id = drop (length full - 20) full
          \<and> length (stored st' chat_id) \<le> 20
          \<and> suffix (stored st' chat_id) full
          \<and> prefix (stored st chat_id @ [Turn User (UserText user_text)]) full
          \<and> length (stored st chat_id) + 2 \<le> length full"
    unfolding Let_def by (rule all [unfolded full_def])
next
  assume a: "ask_claude_with_mcp fuel env chat_id user_text (w, st) = (Returned final, w', st')
        \<and> claude_tool_schemas env w = (Inr tools, w0)
        \<and> messages_create env tools (stored st chat_id @ [Turn User (UserText user_text)]) w0
            = (Inr resp, w1)
        \<and> stop_reason resp \<noteq> Some ''tool_use''"
  have "fuel \<noteq> 0"
  proof
    assume "fuel = 0"
    with a show False
      by (auto simp: ask_claude_with_mcp_def split: prod.splits)
  qed
  then obtain n where n: "fuel = Suc n" by (cases fuel) auto
  from a have "history_after fuel env tools
        (stored st chat_id @ [Turn User (UserText user_text)]) w0
      = stored st chat_id
        @ [Turn User (UserText user_text), Turn Assistant (Blocks (resp_content resp))]"
    by (simp add: n Let_def)
  with a ask_returned_history [of fuel env chat_id user_text w st final w' st' tools w0]
  show "stored st' chat_id
          = drop (length (stored st chat_id) + 2 - 20)
              (stored st chat_id
               @ [Turn User (UserText user_text), Turn Assistant (Blocks (resp_content resp))])"
    by (simp add: last_n_def)
next
  assume "exchanges fuel env chat_id texts (w, st) = Some (w2, st2) \<and> length texts = 25"
  then have e: "exchanges fuel env chat_id texts (w, st) = Some (w2, st2)"
    and l: "length texts = 25" by auto
  from l have "texts \<noteq> []" by auto
  with exchanges_length [OF e] l show "length (stored st2 chat_id) = 20" by auto
qed

text \<open>
  C8. An exchange assigns to \<open>histories\<close> once, when it returns, and then only the entry
  of its chat id changes, to a new list. When the exchange raises, or has not returned,
  \<open>histories\<close> and the turns stored for every chat id are as they were. In both cases
  no list that was stored before the exchange is modified: the turns in flight are appended
  to a list allocated by the exchange.
\<close>

theorem store_committed_only_on_return:
  assumes wf: "wf_state st"
      and ask: "ask_claude_with_mcp fuel env chat_id user_text (w, st) = (out, w', st')"
  shows "(\<forall>k a. histories st k = Some a \<longrightarrow> heap st' a = heap st a)
     \<and> (\<forall>k. k \<noteq> chat_id \<longrightarrow> stored st' k = stored st k)
     \<and> (case out of
           Returned final \<Rightarrow>
             commits st' = Suc (commits st)
             \<and> (\<exists>c. next_addr st \<le> c \<and> histories st' = (histories st)(chat_id \<mapsto> c))
         | _ \<Rightarrow>
             commits st' = commits st \<and> histories st' = histories st
             \<and> (\<forall>k. stored st' k = stored st k))
     \<and> wf_state st'"
proof -
  note fr = ask_claude_with_mcp_frame [OF ask]
  have old: "\<forall>k a. histories st k = Some a \<longrightarrow> heap st' a = heap st a"
    using fr wf by (auto simp: wf_state_def)
  show ?thesis
  proof (cases out)
    case (Returned final)
    with fr obtain c where c: "next_addr st \<le> c" "c < next_addr st'"
      "histories st' = (histories st)(chat_id \<mapsto> c)" "commits st' = Suc (commits st)"
      by auto
    have le: "next_addr st \<le> next_addr st'" using fr by simp
    have "wf_state st'"
      unfolding wf_state_def
    proof (intro allI impI)
      fix k a assume ka: "histories st' k = Some a"
      show "a < next_addr st'"
      proof (cases "k = chat_id")
        case True
        with ka c show ?thesis by simp
      next
        case False
        with ka c have "histories st k = Some a" by simp
        with wf have "a < next_addr st" by (simp add: wf_state_def)
        with le show ?thesis by simp
      qed
    qed
    moreover have "\<forall>k. k \<noteq> chat_id \<longrightarrow> stored st' k = stored st k"
      using old c by (auto simp: stored_def split: option.splits)
    ultimately show ?thesis using old c Returned by auto
  next
    case (Raised e)
    with fr have h: "histories st' = histories st" "commits st' = commits st" by auto
    have "next_addr st \<le> next_addr st'" using fr by simp
    with wf h have "wf_state st'" by (fastforce simp: wf_state_def)
    moreover have "\<forall>k. stored st' k = stored st k"
      using old h by (auto simp: stored_def split: option.splits)
    ultimately show ?thesis using old h Raised by auto
  next
    case Running
    with fr have h: "histories st' = histories st" "commits st' = commits st" by auto
    have "next_addr st \<le> next_addr st'" using fr by simp
    with wf h have "wf_state st'" by (fastforce simp: wf_state_def)
    moreover have "\<forall>k. stored st' k = stored st k"
      using old h by (auto simp: stored_def split: option.splits)
    ultimately show ?thesis using old h Running by auto
  qed
qed

section \<open>The final answer\<close>

lemma py_strip_decomp:
  "\<exists>pre post. s = pre @ py_strip s @ post \<and> list_all py_isspace pre \<and> list_all py_isspace post"
proof -
  define t where "t = dropWhile py_isspace s"
  have s: "s = takeWhile py_isspace s @ t" by (simp add: t_def)
  have "rev (dropWhile py_isspace (rev t)) @ rev (takeWhile py_isspace (rev t))
      = rev (takeWhile py_isspace (rev t) @ dropWhile py_isspace (rev t))"
    by (simp only: rev_append)
  also have "\<dots> = t"
    by (simp only: takeWhile_dropWhile_id rev_rev_ident)
  finally have t: "t = py_strip s @ rev (takeWhile py_isspace (rev t))"
    by (simp only: py_strip_def t_def)
  have 1: "list_all py_isspace (takeWhile py_isspace s)"
    by (auto simp: list_all_iff dest: set_takeWhileD)
  have 2: "list_all py_isspace (rev (takeWhile py_isspace (rev t)))"
    by (auto simp: list_all_iff dest: set_takeWhileD)
  from s t have "s = takeWhile py_isspace s @ py_strip s @ rev (takeWhile py_isspace (rev t))"
    by simp
  with 1 2 show ?thesis by blast
qed

lemma py_strip_empty_iff: "py_strip s = [] \<longleftrightarrow> list_all py_isspace s"
proof
  assume "py_strip s = []"
  then have a: "\<forall>x\<in>set (dropWhile py_isspace s). py_isspace x"
    by (simp add: py_strip_def dropWhile_eq_Nil_conv)
  have "dropWhile py_isspace s = []"
  proof (rule ccontr)
    assume ne: "dropWhile py_isspace s \<noteq> []"
    then have "\<not> py_isspace (hd (dropWhile py_isspace s))" by (rule hd_dropWhile)
    moreover have "hd (dropWhile py_isspace s) \<in> set (dropWhile py_isspace s)"
      using ne by simp
    ultimately show False using a by blast
  qed
  then show "list_all py_isspace s" by (simp add: dropWhile_eq_Nil_conv list_all_iff)
next
  assume "list_all py_isspace s"
  then have "dropWhile py_isspace s = []" by (simp add: dropWhile_eq_Nil_conv list_all_iff)
  then show "py_strip s = []" by (simp add: py_strip_def del: dropWhile_eq_Nil_conv)
qed

lemma py_strip_ends:
  assumes "py_strip s \<noteq> []"
  shows "\<not> py_isspace (hd (py_strip s)) \<and> \<not> py_isspace (last (py_strip s))"
proof -
  define t where "t = dropWhile py_isspace s"
  define u where "u = dropWhile py_isspace (rev t)"
  have su: "py_strip s = rev u" by (simp add: py_strip_def t_def u_def)
  with assms have une: "u \<noteq> []" by simp
  then have tne: "t \<noteq> []" by (auto simp: u_def)
  have "\<not> py_isspace (hd u)" using une unfolding u_def by (rule hd_dropWhile)
  then have l: "\<not> py_isspace (last (py_strip s))" using une by (simp add: su last_rev)
  have "last u = last (rev t)" using une unfolding u_def
    by (metis takeWhile_dropWhile_id last_appendR)
  also have "\<dots> = hd t" using tne by (simp add: last_rev)
  finally have "hd (py_strip s) = hd t" using une by (simp add: su hd_rev)
  moreover have "\<not> py_isspace (hd t)" using tne unfolding t_def by (rule hd_dropWhile)
  ultimately show ?thesis using l by simp
qed

text \<open>
  C6, amended. For every terminal model turn (\<open>stop_reason\<close> other than \<open>tool_use\<close>)
  the returned answer is the texts of the turn's text blocks, in order, joined with newlines,
  with the white space at both ends stripped; when nothing is left (no text, or white space
  only) it is the literal \<open>(no text returned)\<close>.
\<close>

theorem final_answer_stripped:
  assumes model: "messages_create env tools (heap st history) w = (Inr resp, w1)"
      and stop: "stop_reason resp \<noteq> Some ''tool_use''"
  shows "(let joined = py_join [CHR 0x0A] (texts_of (resp_content resp))
          in fst (loop_body env tools chat_id history (w, st))
               = Returned (if py_strip joined = [] then ''(no text returned)'' else py_strip joined)
           \<and> (py_strip joined = [] \<longleftrightarrow> list_all py_isspace joined)
           \<and> (\<exists>pre post. joined = pre @ py_strip joined @ post
                 \<and> list_all py_isspace pre \<and> list_all py_isspace post)
           \<and> (py_strip joined \<noteq> [] \<longrightarrow>
                 \<not> py_isspace (hd (py_strip joined)) \<and> \<not> py_isspace (last (py_strip joined))))"
proof -
  have "fst (loop_body env tools chat_id history (w, st))
      = Returned (final_text (resp_content resp))"
    using stop by (simp add: loop_body_def model Let_def split: prod.splits)
  then show ?thesis
    using py_strip_decomp py_strip_empty_iff py_strip_ends
    by (simp add: final_text_def Let_def)
qed

section \<open>Rounds that signal tool use\<close>

text \<open>
  C5, amended. When the model turn signals tool use and has no tool-use block, the loop calls
  no tool, appends the assistant turn and a tool-result turn with an empty list of blocks,
  and goes on to the next model request: it does not return on that turn.
\<close>

theorem tool_use_without_requests_continues:
  assumes model: "messages_create env tools (heap st history) w = (Inr resp, w1)"
      and stop: "stop_reason resp = Some ''tool_use''"
      and none: "tool_uses (resp_content resp) = []"
  shows "loop_body env tools chat_id history (w, st)
        = (Running, w1,
           list_append history (Turn User (ToolResults []))
             (list_append history (Turn Assistant (Blocks (resp_content resp))) st))
     \<and> ask_loop (Suc n) env tools chat_id history (w, st)
        = ask_loop n env tools chat_id history
            (w1, list_append history (Turn User (ToolResults []))
                   (list_append history (Turn Assistant (Blocks (resp_content resp))) st))"
  by (simp add: loop_body_def model stop run_tools_no_uses [OF none] Let_def)

text \<open>
  C2. When the tool service raises for an invocation of a round, the block for that request
  is an error block: \<open>is_error\<close> true, its content one text segment, \<open>Tool error: \<close>
  followed by the exception's \<open>repr\<close>. The remaining requests are still executed, the
  round does not raise, and the loop goes on to the next model request with the tool-result
  turn appended.
\<close>

theorem tool_exception_becomes_error_result:
  assumes model: "messages_create env tools (heap st history) w = (Inr resp, w1)"
      and stop: "stop_reason resp = Some ''tool_use''"
      and blocks: "resp_content resp = pre @ ToolUse tid tool_name tool_args # post"
      and before: "run_tools env pre w1 = (rs1, wi)"
      and logged: "json_dumps tool_args = Inr s"
      and raised: "call_tool env tool_name tool_args wi = (Inl e, wi')"
      and after: "run_tools env post wi' = (rs2, w2)"
  shows "tool_result_block env tid tool_name tool_args wi
        = (ToolResult tid [text_segment (''Tool error: '' @ exn_repr e)] True, wi')
     \<and> fst (loop_body env tools chat_id history (w, st)) = Running
     \<and> ask_loop (Suc n) env tools chat_id history (w, st)
        = ask_loop n env tools chat_id history
            (w2, list_append history
                   (Turn User (ToolResults
                      (rs1 @ ToolResult tid [text_segment (''Tool error: '' @ exn_repr e)] True # rs2)))
                   (list_append history (Turn Assistant (Blocks (resp_content resp))) st))"
proof -
  have blk: "tool_result_block env tid tool_name tool_args wi
        = (ToolResult tid [text_segment (''Tool error: '' @ exn_repr e)] True, wi')"
    by (simp add: tool_result_block_def logged raised error_block_def)
  have run: "run_tools env (resp_content resp) w1
        = (rs1 @ ToolResult tid [text_segment (''Tool error: '' @ exn_repr e)] True # rs2, w2)"
    by (simp add: blocks run_tools_append before blk after)
  show ?thesis
    by (simp add: blk loop_body_def model stop run Let_def)
qed

section \<open>Closed instances\<close>

lemma scripted_messages_create:
  "messages_create (scripted listing tool) tools msgs (r # rs) = (r, rs)"
  by (simp add: scripted_def)

lemma scripted_call_tool:
  "call_tool (scripted listing tool) nm args w = (tool nm args, w)"
  by (simp add: scripted_def)

text \<open>
  C1, an instance of the amended statement: the model asks for one tool call, the tool answers
  with one text segment, and the next model turn is final. The round appends the assistant
  turn and one tool-result turn with the block for \<open>t1\<close>; the exchange stores four turns.
\<close>

theorem tool_use_round_witness:
  "loop_body (scripted (Inr []) quote_tool) [] 7 1 ([Inr quote_request, Inr quote_answer], asked_state)
     = (Running, [Inr quote_answer],
        list_append 1
          (Turn User (ToolResults [ToolResult ''t1'' [text_segment ''BTC/USDT: 65000, +1.2%''] False]))
          (list_append 1 (Turn Assistant (Blocks [ToolUse ''t1'' ''quote'' quote_args])) asked_state))
   \<and> stored (snd (snd (ask_claude_with_mcp (Suc (Suc 0)) (scripted (Inr []) quote_tool) 7
                 ''What is BTC doing?'' ([Inr quote_request, Inr quote_answer], initial_state)))) 7
     = [Turn User (UserText ''What is BTC doing?''),
        Turn Assistant (Blocks [ToolUse ''t1'' ''quote'' quote_args]),
        Turn User (ToolResults [ToolResult ''t1'' [text_segment ''BTC/USDT: 65000, +1.2%''] False]),
        Turn Assistant (Blocks [Text ''BTC is up 1.2% at $65,000.''])]"
proof -
  have model: "messages_create (scripted (Inr []) quote_tool) [] (heap asked_state 1)
      [Inr quote_request, Inr quote_answer] = (Inr quote_request, [Inr quote_answer])"
    by (rule scripted_messages_create)
  have stop: "stop_reason quote_request = Some ''tool_use''"
    by (simp add: quote_request_def)
  have run: "run_tools (scripted (Inr []) quote_tool) (resp_content quote_request) [Inr quote_answer]
      = ([ToolResult ''t1'' [text_segment ''BTC/USDT: 65000, +1.2%''] False], [Inr quote_answer])"
    by code_simp
  have whole: "stored (snd (snd (ask_claude_with_mcp (Suc (Suc 0)) (scripted (Inr []) quote_tool) 7
                 ''What is BTC doing?'' ([Inr quote_request, Inr quote_answer], initial_state)))) 7
     = [Turn User (UserText ''What is BTC doing?''),
        Turn Assistant (Blocks [ToolUse ''t1'' ''quote'' quote_args]),
        Turn User (ToolResults [ToolResult ''t1'' [text_segment ''BTC/USDT: 65000, +1.2%''] False]),
        Turn Assistant (Blocks [Text ''BTC is up 1.2% at $65,000.''])]"
    by code_simp
  from tool_use_round [OF model stop, of 7]
  show ?thesis using run whole by (auto simp: quote_request_def)
qed

text \<open>
  C1, as stated, fails. A model turn that holds a tool-use block and whose \<open>stop_reason\<close>
  is \<open>max_tokens\<close> ends the exchange: no tool is called, no tool-result turn is appended,
  and the stored history ends with the assistant turn and its unanswered request.
\<close>

theorem unanswered_request_counterexample:
  "tool_uses (resp_content truncated_request) = [ToolUse ''t1'' ''quote'' quote_args]
   \<and> fst (ask_claude_with_mcp (Suc (Suc 0)) (scripted (Inr []) quote_tool) 7
           ''What is BTC doing?'' ([Inr truncated_request, Inr quote_answer], initial_state))
       = Returned ''(no text returned)''
   \<and> stored (snd (snd (ask_claude_with_mcp (Suc (Suc 0)) (scripted (Inr []) quote_tool) 7
                 ''What is BTC doing?'' ([Inr truncated_request, Inr quote_answer], initial_state)))) 7
       = [Turn User (UserText ''What is BTC doing?''),
          Turn Assistant (Blocks [ToolUse ''t1'' ''quote'' quote_args])]"
  by code_simp

text \<open>
  C2, an instance: the tool service refuses the connection. The block for \<open>t1\<close> is the
  error block, the round does not raise, and the exchange returns the final answer of the
  next model turn.
\<close>

theorem tool_exception_becomes_error_result_witness:
  "tool_result_block (scripted (Inr []) refusing_tool) ''t1'' ''quote'' quote_args [Inr quote_answer]
     = (ToolResult ''t1'' [text_segment ''Tool error: ConnectionRefusedError()''] True,
        [Inr quote_answer])
   \<and> fst (loop_body (scripted (Inr []) refusing_tool) [] 7 1
           ([Inr quote_request, Inr quote_answer], asked_state)) = Running
   \<and> fst (ask_loop (Suc (Suc 0)) (scripted (Inr []) refusing_tool) [] 7 1
           ([Inr quote_request, Inr quote_answer], asked_state))
       = Returned ''BTC is up 1.2% at $65,000.''"
proof -
  have model: "messages_create (scripted (Inr []) refusing_tool) [] (heap asked_state 1)
      [Inr quote_request, Inr quote_answer] = (Inr quote_request, [Inr quote_answer])"
    by (rule scripted_messages_create)
  have stop: "stop_reason quote_request = Some ''tool_use''"
    by (simp add: quote_request_def)
  have blocks: "resp_content quote_request = [] @ ToolUse ''t1'' ''quote'' quote_args # []"
    by (simp add: quote_request_def)
  have before: "run_tools (scripted (Inr []) refusing_tool) [] [Inr quote_answer]
      = ([], [Inr quote_answer])"
    by simp
  have logged: "json_dumps quote_args
      = Inr (''{'' @ [CHR 0x22] @ ''symbols'' @ [CHR 0x22] @ '': ['' @ [CHR 0x22] @ ''BTC/USDT''
             @ [CHR 0x22] @ '']}'')"
    by code_simp
  have raised: "call_tool (scripted (Inr []) refusing_tool) ''quote'' quote_args [Inr quote_answer]
      = (Inl connection_refused, [Inr quote_answer])"
    by (simp add: scripted_call_tool refusing_tool_def)
  have fin: "fst (ask_loop (Suc 0) (scripted (Inr []) refusing_tool) [] 7 1
      ([Inr quote_answer],
       list_append 1
         (Turn User (ToolResults
            ([] @ ToolResult ''t1'' [text_segment (''Tool error: '' @ exn_repr connection_refused)] True # [])))
         (list_append 1 (Turn Assistant (Blocks (resp_content quote_request))) asked_state)))
      = Returned ''BTC is up 1.2% at $65,000.''"
    by code_simp
  from tool_exception_becomes_error_result [OF model stop blocks before logged raised before,
      of 7 "Suc 0"]
  show ?thesis using fin by (simp add: connection_refused_def)
qed

text \<open>
  C5, as stated, fails. The model turn signals tool use and holds only the text \<open>hi\<close>. The
  loop does not return \<open>hi\<close>: it appends a tool-result turn with no blocks, asks the model
  again, and returns the text of the next turn.
\<close>

theorem tool_use_without_requests_counterexample:
  "stop_reason empty_tool_use = Some ''tool_use''
   \<and> tool_uses (resp_content empty_tool_use) = []
   \<and> texts_of (resp_content empty_tool_use) = [''hi'']
   \<and> fst (loop_body (scripted (Inr []) quote_tool) [] 7 1
           ([Inr empty_tool_use, Inr quote_answer], asked_state)) = Running
   \<and> fst (ask_claude_with_mcp (Suc (Suc 0)) (scripted (Inr []) quote_tool) 7
           ''What is BTC doing?'' ([Inr empty_tool_use, Inr quote_answer], initial_state))
       = Returned ''BTC is up 1.2% at $65,000.''
   \<and> stored (snd (snd (ask_claude_with_mcp (Suc (Suc 0)) (scripted (Inr []) quote_tool) 7
                 ''What is BTC doing?'' ([Inr empty_tool_use, Inr quote_answer], initial_state)))) 7
       = [Turn User (UserText ''What is BTC doing?''),
          Turn Assistant (Blocks [Text ''hi'']),
          Turn User (ToolResults []),
          Turn Assistant (Blocks [Text ''BTC is up 1.2% at $65,000.''])]"
  by code_simp

text \<open>
  C5, an instance of the amended statement.
\<close>

theorem tool_use_without_requests_continues_witness:
  "loop_body (scripted (Inr []) quote_tool) [] 7 1
       ([Inr empty_tool_use, Inr quote_answer], asked_state)
     = (Running, [Inr quote_answer],
        list_append 1 (Turn User (ToolResults []))
          (list_append 1 (Turn Assistant (Blocks [Text ''hi''])) asked_state))
   \<and> fst (ask_loop (Suc (Suc 0)) (scripted (Inr []) quote_tool) [] 7 1
           ([Inr empty_tool_use, Inr quote_answer], asked_state))
       = Returned ''BTC is up 1.2% at $65,000.''"
proof -
  have model: "messages_create (scripted (Inr []) quote_tool) [] (heap asked_state 1)
      [Inr empty_tool_use, Inr quote_answer] = (Inr empty_tool_use, [Inr quote_answer])"
    by (rule scripted_messages_create)
  have stop: "stop_reason empty_tool_use = Some ''tool_use''"
    by (simp add: empty_tool_use_def)
  have none: "tool_uses (resp_content empty_tool_use) = []"
    by (simp add: empty_tool_use_def tool_uses_def)
  have fin: "fst (ask_loop (Suc 0) (scripted (Inr []) quote_tool) [] 7 1
      ([Inr quote_answer],
       list_append 1 (Turn User (ToolResults []))
         (list_append 1 (Turn Assistant (Blocks (resp_content empty_tool_use))) asked_state)))
      = Returned ''BTC is up 1.2% at $65,000.''"
    by code_simp
  from tool_use_without_requests_continues [OF model stop none, of 7 "Suc 0"]
  show ?thesis using fin by (simp add: empty_tool_use_def)
qed

text \<open>
  C6, as stated, fails. The texts of the terminal turn join to \<open>hi\<close> with a space before
  it, which is not empty; the returned answer is \<open>hi\<close> without the space.
\<close>

theorem final_answer_counterexample:
  "stop_reason padded_answer = Some ''end_turn''
   \<and> py_join [CHR 0x0A] (texts_of (resp_content padded_answer)) = '' hi''
   \<and> fst (ask_claude_with_mcp (Suc 0) (scripted (Inr []) quote_tool) 7 ''q''
           ([Inr padded_answer], initial_state)) = Returned ''hi''"
  by code_simp

text \<open>
  C6, two instances of the amended statement: a padded text, and a turn whose only text is
  white space.
\<close>

theorem final_answer_stripped_witness:
  "fst (loop_body (scripted (Inr []) quote_tool) [] 7 1 ([Inr padded_answer], asked_state))
     = Returned ''hi''
   \<and> fst (loop_body (scripted (Inr []) quote_tool) [] 7 1
           ([Inr \<lparr>stop_reason = None, resp_content = [Text '' '', OtherBlock ''thinking'']\<rparr>],
            asked_state))
     = Returned ''(no text returned)''"
proof -
  have model1: "messages_create (scripted (Inr []) quote_tool) [] (heap asked_state 1)
      [Inr padded_answer] = (Inr padded_answer, [])"
    by (rule scripted_messages_create)
  have stop1: "stop_reason padded_answer \<noteq> Some ''tool_use''"
    by (simp add: padded_answer_def)
  have model2: "messages_create (scripted (Inr []) quote_tool) [] (heap asked_state 1)
      [Inr \<lparr>stop_reason = None, resp_content = [Text '' '', OtherBlock ''thinking'']\<rparr>]
      = (Inr \<lparr>stop_reason = None, resp_content = [Text '' '', OtherBlock ''thinking'']\<rparr>, [])"
    by (rule scripted_messages_create)
  have stop2: "stop_reason \<lparr>stop_reason = None, resp_content = [Text '' '', OtherBlock ''thinking'']\<rparr>
      \<noteq> Some ''tool_use''"
    by simp
  from final_answer_stripped [OF model1 stop1, of 7] final_answer_stripped [OF model2 stop2, of 7]
  show ?thesis
    by (simp add: Let_def padded_answer_def py_strip_def py_isspace_def)
qed

lemma ask_quote_answer:
  "\<exists>final st'. ask_claude_with_mcp (Suc 0) (scripted (Inr []) tool) chat_id user_text
       (Inr quote_answer # w, st) = (Returned final, w, st')"
  by (simp add: run_defs quote_answer_def split: option.splits)

lemma exchanges_quote_answers:
  "\<exists>st'. exchanges (Suc 0) (scripted (Inr []) tool) chat_id texts
       (replicate (length texts) (Inr quote_answer) @ w, st) = Some (w, st')"
proof (induction texts arbitrary: st)
  case Nil
  then show ?case by simp
next
  case (Cons user_text rest)
  obtain final st1 where
    "ask_claude_with_mcp (Suc 0) (scripted (Inr []) tool) chat_id user_text
       (Inr quote_answer # replicate (length rest) (Inr quote_answer) @ w, st)
     = (Returned final, replicate (length rest) (Inr quote_answer) @ w, st1)"
    using ask_quote_answer by blast
  with Cons.IH [of st1] show ?case by simp
qed

lemma scripted_claude_tool_schemas:
  "claude_tool_schemas (scripted (Inr []) tool) w = (Inr [], w)"
  by (simp add: claude_tool_schemas_def scripted_def)

text \<open>
  C4, three instances: from a store that holds the 20 turns numbered 0 to 19, an exchange of
  one round leaves the turns numbered 2 to 19, the user's turn and the assistant's turn, so
  the two oldest are dropped; from the empty store, an exchange of two rounds leaves its four
  turns; and 25 exchanges of one round each on chat id 7 leave 20 turns.
\<close>

theorem stored_history_capped_witness:
  "stored (snd (snd (ask_claude_with_mcp (Suc 0) (scripted (Inr []) quote_tool) 7 ''q''
                       ([Inr quote_answer], full_state)))) 7
     = numbered_turns [2..<20]
       @ [Turn User (UserText ''q''), Turn Assistant (Blocks [Text ''BTC is up 1.2% at $65,000.''])]
   \<and> stored (snd (snd (ask_claude_with_mcp (Suc (Suc 0)) (scripted (Inr []) quote_tool) 7
                 ''What is BTC doing?'' ([Inr quote_request, Inr quote_answer], initial_state)))) 7
     = [Turn User (UserText ''What is BTC doing?''),
        Turn Assistant (Blocks [ToolUse ''t1'' ''quote'' quote_args]),
        Turn User (ToolResults [ToolResult ''t1'' [text_segment ''BTC/USDT: 65000, +1.2%''] False]),
        Turn Assistant (Blocks [Text ''BTC is up 1.2% at $65,000.''])]
   \<and> (\<exists>w2 st2.
        exchanges (Suc 0) (scripted (Inr []) quote_tool) 7 (replicate 25 ''q'')
          (replicate 25 (Inr quote_answer), initial_state) = Some (w2, st2)
        \<and> length (stored st2 7) = 20)"
proof -
  let ?env = "scripted (Inr []) quote_tool"
  let ?a = "ask_claude_with_mcp (Suc 0) ?env 7 ''q'' ([Inr quote_answer], full_state)"
  let ?r = "ask_claude_with_mcp (Suc (Suc 0)) ?env 7 ''What is BTC doing?''
        ([Inr quote_request, Inr quote_answer], initial_state)"
  have "fst ?a = Returned ''BTC is up 1.2% at $65,000.''"
    by code_simp
  then have a: "?a = (Returned ''BTC is up 1.2% at $65,000.'', fst (snd ?a), snd (snd ?a))"
    by (metis prod.collapse)
  have sch1: "claude_tool_schemas ?env [Inr quote_answer] = (Inr [], [Inr quote_answer])"
    by (rule scripted_claude_tool_schemas)
  have model: "messages_create ?env [] (stored full_state 7 @ [Turn User (UserText ''q'')])
      [Inr quote_answer] = (Inr quote_answer, [])"
    by (rule scripted_messages_create)
  have stop: "stop_reason quote_answer \<noteq> Some ''tool_use''"
    by (simp add: quote_answer_def)
  from stored_history_capped [where fuel = "Suc 0" and env = ?env and chat_id = 7
      and user_text = "''q''" and w = "[Inr quote_answer]" and st = full_state
      and final = "''BTC is up 1.2% at $65,000.''" and w' = "fst (snd ?a)"
      and st' = "snd (snd ?a)" and tools = "[]" and ?w0.0 = "[Inr quote_answer]"
      and resp = quote_answer and ?w1.0 = "[]"]
    a sch1 model stop
  have s1: "stored (snd (snd ?a)) 7
      = drop (length (stored full_state 7) + 2 - 20)
          (stored full_state 7
           @ [Turn User (UserText ''q''), Turn Assistant (Blocks (resp_content quote_answer))])"
    by blast
  have e1: "drop (length (stored full_state 7) + 2 - 20)
          (stored full_state 7
           @ [Turn User (UserText ''q''), Turn Assistant (Blocks (resp_content quote_answer))])
      = numbered_turns [2..<20]
        @ [Turn User (UserText ''q''), Turn Assistant (Blocks [Text ''BTC is up 1.2% at $65,000.''])]"
    by code_simp
  have "fst ?r = Returned ''BTC is up 1.2% at $65,000.''"
    by code_simp
  then have r: "?r = (Returned ''BTC is up 1.2% at $65,000.'', fst (snd ?r), snd (snd ?r))"
    by (metis prod.collapse)
  have sch2: "claude_tool_schemas ?env [Inr quote_request, Inr quote_answer]
      = (Inr [], [Inr quote_request, Inr quote_answer])"
    by (rule scripted_claude_tool_schemas)
  let ?full = "history_after (Suc (Suc 0)) ?env []
      (stored initial_state 7 @ [Turn User (UserText ''What is BTC doing?'')])
      [Inr quote_request, Inr quote_answer]"
  from stored_history_capped [where fuel = "Suc (Suc 0)" and env = ?env and chat_id = 7
      and user_text = "''What is BTC doing?''"
      and w = "[Inr quote_request, Inr quote_answer]" and st = initial_state
      and final = "''BTC is up 1.2% at $65,000.''" and w' = "fst (snd ?r)"
      and st' = "snd (snd ?r)" and tools = "[]"
      and ?w0.0 = "[Inr quote_request, Inr quote_answer]"]
    r sch2
  have s2: "stored (snd (snd ?r)) 7 = drop (length ?full - 20) ?full"
    by (simp add: Let_def)
  have e2: "drop (length ?full - 20) ?full
     = [Turn User (UserText ''What is BTC doing?''),
        Turn Assistant (Blocks [ToolUse ''t1'' ''quote'' quote_args]),
        Turn User (ToolResults [ToolResult ''t1'' [text_segment ''BTC/USDT: 65000, +1.2%''] False]),
        Turn Assistant (Blocks [Text ''BTC is up 1.2% at $65,000.''])]"
    by code_simp
  obtain st2 where many:
    "exchanges (Suc 0) ?env 7 (replicate 25 ''q'')
       (replicate (length (replicate 25 ''q'')) (Inr quote_answer) @ [], initial_state)
     = Some ([], st2)"
    using exchanges_quote_answers by blast
  then have many': "exchanges (Suc 0) ?env 7 (replicate 25 ''q'')
       (replicate 25 (Inr quote_answer), initial_state) = Some ([], st2)"
    by simp
  have len: "length (replicate 25 ''q'') = 25" by simp
  from stored_history_capped [where fuel = "Suc 0" and env = ?env
      and chat_id = 7 and w = "replicate 25 (Inr quote_answer)" and st = initial_state
      and texts = "replicate 25 ''q''" and ?w2.0 = "[]" and ?st2.0 = st2] many' len
  have b: "length (stored st2 7) = 20" by blast
  show ?thesis using s1 e1 s2 e2 many' b by simp
qed

text \<open>
  C8, two instances from the empty store: an exchange whose second model request raises
  leaves \<open>histories\<close> empty and makes no assignment; an exchange that returns makes one.
\<close>

theorem store_committed_only_on_return_witness:
  "wf_state initial_state
   \<and> fst (ask_claude_with_mcp (Suc (Suc 0)) (scripted (Inr []) quote_tool) 7 ''What is BTC doing?''
            ([Inr quote_request], initial_state))
       = Raised (PyExn ''APIConnectionError'' ''APIConnectionError()'')
   \<and> histories (snd (snd (ask_claude_with_mcp (Suc (Suc 0)) (scripted (Inr []) quote_tool) 7
         ''What is BTC doing?'' ([Inr quote_request], initial_state)))) = histories initial_state
   \<and> commits (snd (snd (ask_claude_with_mcp (Suc (Suc 0)) (scripted (Inr []) quote_tool) 7
         ''What is BTC doing?'' ([Inr quote_request], initial_state)))) = 0
   \<and> stored (snd (snd (ask_claude_with_mcp (Suc (Suc 0)) (scripted (Inr []) quote_tool) 7
         ''What is BTC doing?'' ([Inr quote_request], initial_state)))) 7 = []
   \<and> commits (snd (snd (ask_claude_with_mcp (Suc (Suc 0)) (scripted (Inr []) quote_tool) 7
         ''What is BTC doing?'' ([Inr quote_request, Inr quote_answer], initial_state)))) = 1"
proof -
  let ?r = "ask_claude_with_mcp (Suc (Suc 0)) (scripted (Inr []) quote_tool) 7
         ''What is BTC doing?'' ([Inr quote_request], initial_state)"
  let ?q = "ask_claude_with_mcp (Suc (Suc 0)) (scripted (Inr []) quote_tool) 7
         ''What is BTC doing?'' ([Inr quote_request, Inr quote_answer], initial_state)"
  have wf: "wf_state initial_state"
    by (simp add: wf_state_def initial_state_def)
  have out: "fst ?r = Raised (PyExn ''APIConnectionError'' ''APIConnectionError()'')"
    by code_simp
  then have r: "?r = (Raised (PyExn ''APIConnectionError'' ''APIConnectionError()''),
      fst (snd ?r), snd (snd ?r))"
    by (metis prod.collapse)
  have "fst ?q = Returned ''BTC is up 1.2% at $65,000.''"
    by code_simp
  then have q: "?q = (Returned ''BTC is up 1.2% at $65,000.'', fst (snd ?q), snd (snd ?q))"
    by (metis prod.collapse)
  from store_committed_only_on_return [OF wf r]
  have a: "histories (snd (snd ?r)) = histories initial_state"
    "commits (snd (snd ?r)) = commits initial_state"
    "stored (snd (snd ?r)) 7 = stored initial_state 7"
    by auto
  from store_committed_only_on_return [OF wf q]
  have b: "commits (snd (snd ?q)) = Suc (commits initial_state)"
    by auto
  show ?thesis
    using wf out a b by (simp add: initial_state_def stored_def)
qed

end
